theory Spec2Isabelle
  imports Main
begin

section \<open>Values, converters and errors\<close>

text \<open>
  The module \<^verbatim>\<open>dynetx/readwrite/edgelist.py\<close> reads and writes dynamic graphs as edge
  lists. A token of a line is a string; a node or a timestamp is either the token itself
  or what a user-supplied converter (\<^verbatim>\<open>nodetype\<close>, \<^verbatim>\<open>timestamptype\<close>) makes of it. The
  model covers string and integer values; strings are lists of code points below 256.
\<close>

datatype pyval = PInt int | PStr string

text \<open>
  A converter is a callable with a printable identity (what \<^verbatim>\<open>%s\<close> shows for it); \<open>conv\<close>
  returns \<open>None\<close> where the callable raises.
\<close>

record converter =
  conv_name :: string
  conv :: "string \<Rightarrow> pyval option"

text \<open>
  Every exception the modelled code can raise. The constructors of the three
  \<^verbatim>\<open>TypeError\<close>s raised by the module itself carry the arguments of the message's format
  string; the printed type is \<open>None\<close> when the formatted object is Python's \<^verbatim>\<open>None\<close>.
\<close>

datatype error =
    TypeError_create_using
  | TypeError_nodes pyval pyval "string option"
  | TypeError_timestamp pyval "string option"
  | TypeError_not_callable
  | TypeError_compare
  | TypeError_range
  | TypeError_not_iterable
  | TypeError_raise_NotImplemented
  | TypeError_subscript
  | KeyError pyval
  | IndexError
  | ValueError_empty_separator
  | ConverterRaised string string

section \<open>String operations of the tokenizer\<close>

text \<open>Whitespace of \<^verbatim>\<open>str.strip\<close> and \<^verbatim>\<open>str.split()\<close> among the code points below 256.\<close>

definition isspace :: "char \<Rightarrow> bool" where
  "isspace c \<longleftrightarrow> c \<in> {CHR 0x09, CHR 0x0A, CHR 0x0B, CHR 0x0C, CHR 0x0D,
                     CHR 0x1C, CHR 0x1D, CHR 0x1E, CHR 0x1F, CHR 0x20, CHR 0x85, CHR 0xA0}"

fun startswith :: "string \<Rightarrow> string \<Rightarrow> bool" where
  "startswith s [] = True"
| "startswith [] (c # sub) = False"
| "startswith (d # s) (c # sub) = (d = c \<and> startswith s sub)"

text \<open>\<^verbatim>\<open>s.find(sub)\<close>: the lowest index where \<open>sub\<close> occurs; \<open>None\<close> stands for \<open>-1\<close>.\<close>

fun find_at :: "nat \<Rightarrow> string \<Rightarrow> string \<Rightarrow> nat option" where
  "find_at i [] sub = (if sub = [] then Some i else None)"
| "find_at i (c # s) sub =
     (if startswith (c # s) sub then Some i else find_at (Suc i) s sub)"

definition py_find :: "string \<Rightarrow> string \<Rightarrow> nat option" where
  "py_find s sub = find_at 0 s sub"

definition rstrip :: "string \<Rightarrow> string" where
  "rstrip s = rev (dropWhile isspace (rev s))"

definition strip :: "string \<Rightarrow> string" where
  "strip s = rstrip (dropWhile isspace s)"

text \<open>\<^verbatim>\<open>s.split()\<close> with no separator: the maximal runs of non-whitespace.\<close>

fun split_ws :: "string \<Rightarrow> string \<Rightarrow> string list" where
  "split_ws cur [] = (if cur = [] then [] else [cur])"
| "split_ws cur (c # cs) =
     (if isspace c then (if cur = [] then split_ws [] cs else cur # split_ws [] cs)
      else split_ws (cur @ [c]) cs)"

text \<open>\<^verbatim>\<open>s.split(sep)\<close> with a separator: every occurrence splits, empty fields are kept.\<close>

fun split_sep :: "string \<Rightarrow> string \<Rightarrow> string \<Rightarrow> string list" where
  "split_sep sep cur [] = [cur]"
| "split_sep sep cur (c # cs) =
     (if startswith (c # cs) sep then cur # split_sep sep [] (drop (length sep - 1) cs)
      else split_sep sep (cur @ [c]) cs)"

text \<open>\<^verbatim>\<open>s.split(delimiter)\<close>; the empty separator raises \<^verbatim>\<open>ValueError\<close>.\<close>

definition py_split :: "string option \<Rightarrow> string \<Rightarrow> error + string list" where
  "py_split delimiter s =
     (case delimiter of
        None \<Rightarrow> Inr (split_ws [] s)
      | Some sep \<Rightarrow> if sep = [] then Inl ValueError_empty_separator
                    else Inr (split_sep sep [] s))"

section \<open>Comparison and range\<close>

fun str_lt :: "string \<Rightarrow> string \<Rightarrow> bool" where
  "str_lt [] [] = False"
| "str_lt [] (b # bs) = True"
| "str_lt (a # as) [] = False"
| "str_lt (a # as) (b # bs) =
     ((of_char a :: nat) < of_char b \<or> (a = b \<and> str_lt as bs))"

text \<open>
  \<^verbatim>\<open>a < b\<close>. Integers compare by value and strings by code point; an integer against a
  string raises \<^verbatim>\<open>TypeError\<close> (Python 3).
\<close>

fun py_lt :: "pyval \<Rightarrow> pyval \<Rightarrow> error + bool" where
  "py_lt (PInt a) (PInt b) = Inr (a < b)"
| "py_lt (PStr a) (PStr b) = Inr (str_lt a b)"
| "py_lt a b = Inl TypeError_compare"

text \<open>\<^verbatim>\<open>range(a, b)\<close>: the integers from \<open>a\<close> up to \<open>b - 1\<close>; strings raise \<^verbatim>\<open>TypeError\<close>.\<close>

fun py_range :: "pyval \<Rightarrow> pyval \<Rightarrow> error + int list" where
  "py_range (PInt a) (PInt b) = Inr [a..b - 1]"
| "py_range a b = Inl TypeError_range"

section \<open>The dynamic graph\<close>

text \<open>
  Modelled from the spec: the class \<^verbatim>\<open>DynGraph\<close> (\<^verbatim>\<open>dynetx\<close>), which is not part of the
  module. The spec gives it \<^verbatim>\<open>add_interaction(u, v, t, [e])\<close>, \<^verbatim>\<open>clear()\<close> and the
  timestamps recorded for a pair. The timeline of a pair is the ordered sequence of the
  timestamps at which the pair is active, each with an optional edge identifier:
  registering a timestamp appends it, and registering a timestamp the pair already has
  leaves the timeline as it is. The two orientations of a pair share one timeline, so
  the timelines are kept by unordered pair. A graph is its nodes and its timelines.
\<close>

type_synonym entry = "pyval \<times> pyval option"

record DynGraph =
  nodes :: "pyval set"
  edges :: "pyval set \<Rightarrow> entry list option"

definition DynGraph_new :: DynGraph where
  "DynGraph_new = \<lparr>nodes = {}, edges = (\<lambda>p. None)\<rparr>"

definition clear :: "DynGraph \<Rightarrow> DynGraph" where
  "clear G = \<lparr>nodes = {}, edges = (\<lambda>p. None)\<rparr>"

definition record_entry :: "pyval \<Rightarrow> pyval option \<Rightarrow> entry list \<Rightarrow> entry list" where
  "record_entry t e es = (if t \<in> fst ` set es then es else es @ [(t, e)])"

definition add_interaction ::
  "DynGraph \<Rightarrow> pyval \<Rightarrow> pyval \<Rightarrow> pyval \<Rightarrow> pyval option \<Rightarrow> DynGraph" where
  "add_interaction G u v t e =
     \<lparr>nodes = insert u (insert v (nodes G)),
      edges = (edges G)
        ({u, v} \<mapsto> record_entry t e (case edges G {u, v} of None \<Rightarrow> [] | Some es \<Rightarrow> es))\<rparr>"

text \<open>The timestamps recorded for a pair, none for a pair that was never registered.\<close>

definition timeline :: "DynGraph \<Rightarrow> pyval \<Rightarrow> pyval \<Rightarrow> pyval list" where
  "timeline G u v = (case edges G {u, v} of None \<Rightarrow> [] | Some es \<Rightarrow> map fst es)"

text \<open>
  \<^verbatim>\<open>G.edge[u][v]['t']\<close>, the subscripts of line 138: \<^verbatim>\<open>G.edge\<close> is a dictionary of
  dictionaries, and a subscript with a missing key raises \<^verbatim>\<open>KeyError\<close> for that key. The
  first subscript misses when \<open>u\<close> is not a node, the second when \<open>u\<close> and \<open>v\<close> have
  no edge.
\<close>

definition edge_t :: "DynGraph \<Rightarrow> pyval \<Rightarrow> pyval \<Rightarrow> error + pyval list" where
  "edge_t G u v =
     (if u \<notin> nodes G then Inl (KeyError u)
      else case edges G {u, v} of
             None \<Rightarrow> Inl (KeyError v)
           | Some es \<Rightarrow> Inr (map fst es))"

section \<open>Tokenizer and field converter\<close>

text \<open>\<^verbatim>\<open>p = line.find(comments); if p >= 0: line = line[:p]\<close>\<close>

definition strip_comment :: "string \<Rightarrow> string \<Rightarrow> string" where
  "strip_comment comments line =
     (case py_find line comments of None \<Rightarrow> line | Some p \<Rightarrow> take p line)"

text \<open>
  The \<^verbatim>\<open>try\<close> block around \<^verbatim>\<open>u = nodetype(u); v = nodetype(v)\<close>: when the second call
  raises, \<open>u\<close> already holds the converted value, and the message is formatted with it.
\<close>

definition convert_nodes ::
  "converter option \<Rightarrow> string \<Rightarrow> string \<Rightarrow> error + (pyval \<times> pyval)" where
  "convert_nodes nodetype u v =
     (case nodetype of
        None \<Rightarrow> Inr (PStr u, PStr v)
      | Some c \<Rightarrow>
          (case conv c u of
             None \<Rightarrow> Inl (TypeError_nodes (PStr u) (PStr v) (Some (conv_name c)))
           | Some u' \<Rightarrow>
               (case conv c v of
                  None \<Rightarrow> Inl (TypeError_nodes u' (PStr v) (Some (conv_name c)))
                | Some v' \<Rightarrow> Inr (u', v'))))"

text \<open>
  The \<^verbatim>\<open>try\<close> block around \<^verbatim>\<open>s = timestamptype(s)\<close>. Its message is formatted with
  \<^verbatim>\<open>(s, nodetype)\<close>, as the source has it.
\<close>

definition convert_timestamp ::
  "converter option \<Rightarrow> converter option \<Rightarrow> string \<Rightarrow> error + pyval" where
  "convert_timestamp nodetype timestamptype s =
     (case timestamptype of
        None \<Rightarrow> Inr (PStr s)
      | Some c \<Rightarrow>
          (case conv c s of
             None \<Rightarrow> Inl (TypeError_timestamp (PStr s) (map_option conv_name nodetype))
           | Some s' \<Rightarrow> Inr s'))"

text \<open>\<^verbatim>\<open>keys[k]\<close> on the timestamp index.\<close>

definition getitem :: "(pyval \<Rightarrow> pyval option) \<Rightarrow> pyval \<Rightarrow> error + pyval" where
  "getitem keys k = (case keys k of None \<Rightarrow> Inl (KeyError k) | Some x \<Rightarrow> Inr x)"

section \<open>Interaction reconstructor\<close>

text \<open>
  The tokens of an interaction line; \<open>Inr None\<close> is \<^verbatim>\<open>continue\<close>.
\<close>

definition interaction_fields ::
  "string \<Rightarrow> string option \<Rightarrow> string \<Rightarrow>
   error + (string \<times> string \<times> string \<times> string) option" where
  "interaction_fields comments delimiter line0 =
     (let line = strip_comment comments line0 in
      if length line = 0 then Inr None
      else case py_split delimiter (strip line) of
             Inl err \<Rightarrow> Inl err
           | Inr s \<Rightarrow> if length s \<noteq> 4 then Inr None
                      else Inr (Some (s ! 0, s ! 1, s ! 2, s ! 3)))"

text \<open>
  The loop \<^verbatim>\<open>for t in range(timestamps[-1], s)\<close>; a missing key of the index stops it,
  with the registrations made so far kept.
\<close>

fun expand ::
  "(pyval \<Rightarrow> pyval option) option \<Rightarrow> pyval \<Rightarrow> pyval \<Rightarrow> int list \<Rightarrow> DynGraph \<Rightarrow>
   DynGraph \<times> error option" where
  "expand keys u v [] G = (G, None)"
| "expand keys u v (t # ts) G =
     (case keys of
        Some k \<Rightarrow>
          (case getitem k (PInt t) of
             Inl err \<Rightarrow> (G, Some err)
           | Inr t' \<Rightarrow> expand keys u v ts (add_interaction G u v t' None))
      | None \<Rightarrow> expand keys u v ts (add_interaction G u v (PInt t) None))"

text \<open>The branches on \<^verbatim>\<open>op\<close>, lines 132 to 144.\<close>

definition register_op ::
  "(pyval \<Rightarrow> pyval option) option \<Rightarrow> pyval \<Rightarrow> pyval \<Rightarrow> string \<Rightarrow> pyval \<Rightarrow> DynGraph \<Rightarrow>
   DynGraph \<times> error option" where
  "register_op keys u v op s G =
     (if op = ''+'' then
        (case keys of
           Some k \<Rightarrow>
             (case getitem k s of
                Inl err \<Rightarrow> (G, Some err)
              | Inr t \<Rightarrow> (add_interaction G u v t None, None))
         | None \<Rightarrow> (add_interaction G u v s None, None))
      else
        (case edge_t G u v of
           Inl err \<Rightarrow> (G, Some err)
         | Inr timestamps \<Rightarrow>
             if length timestamps > 0 then
               (case py_lt (last timestamps) s of
                  Inl err \<Rightarrow> (G, Some err)
                | Inr b \<Rightarrow>
                    if b then
                      (case py_range (last timestamps) s of
                         Inl err \<Rightarrow> (G, Some err)
                       | Inr r \<Rightarrow> expand keys u v r G)
                    else (G, None))
             else (G, None)))"

text \<open>
  Lines 104 to 131: what a line stands for once its tokens are converted. \<open>Inr None\<close> is
  \<^verbatim>\<open>continue\<close>; an \<open>Inl\<close> is the exception that leaves the loop.
\<close>

definition interaction_record ::
  "string \<Rightarrow> string option \<Rightarrow> converter option \<Rightarrow> converter option \<Rightarrow> string \<Rightarrow>
   error + (pyval \<times> pyval \<times> string \<times> pyval) option" where
  "interaction_record comments delimiter nodetype timestamptype line =
     (case interaction_fields comments delimiter line of
        Inl err \<Rightarrow> Inl err
      | Inr None \<Rightarrow> Inr None
      | Inr (Some (u, v, op, s)) \<Rightarrow>
          (case convert_nodes nodetype u v of
             Inl err \<Rightarrow> Inl err
           | Inr (u', v') \<Rightarrow>
               (case convert_timestamp nodetype timestamptype s of
                  Inl err \<Rightarrow> Inl err
                | Inr s' \<Rightarrow> Inr (Some (u', v', op, s')))))"

text \<open>One iteration of the loop over the lines: the graph after it and what it raised.\<close>

definition interaction_line ::
  "string \<Rightarrow> string option \<Rightarrow> converter option \<Rightarrow> converter option \<Rightarrow>
   (pyval \<Rightarrow> pyval option) option \<Rightarrow> string \<Rightarrow> DynGraph \<Rightarrow> DynGraph \<times> error option" where
  "interaction_line comments delimiter nodetype timestamptype keys line G =
     (case interaction_record comments delimiter nodetype timestamptype line of
        Inl err \<Rightarrow> (G, Some err)
      | Inr None \<Rightarrow> (G, None)
      | Inr (Some (u, v, op, s)) \<Rightarrow> register_op keys u v op s G)"

fun interactions_loop ::
  "string \<Rightarrow> string option \<Rightarrow> converter option \<Rightarrow> converter option \<Rightarrow>
   (pyval \<Rightarrow> pyval option) option \<Rightarrow> string list \<Rightarrow> DynGraph \<Rightarrow> DynGraph \<times> error option" where
  "interactions_loop comments delimiter nodetype timestamptype keys [] G = (G, None)"
| "interactions_loop comments delimiter nodetype timestamptype keys (line # lines) G =
     (case interaction_line comments delimiter nodetype timestamptype keys line G of
        (G', Some err) \<Rightarrow> (G', Some err)
      | (G', None) \<Rightarrow>
          interactions_loop comments delimiter nodetype timestamptype keys lines G')"

section \<open>Objects and the entry points of the parsers\<close>

text \<open>
  \<^verbatim>\<open>create_using\<close> is a reference to an object of the caller: a graph, or an object whose
  \<^verbatim>\<open>clear()\<close> raises. The heap maps references to objects; \<open>fresh\<close> is the next unused one.
\<close>

datatype pyobj = GraphObj DynGraph | NoClearObj

record heap =
  objs :: "nat \<Rightarrow> pyobj"
  fresh :: nat

text \<open>What a parser leaves: the heap and either the exception or the returned reference.\<close>

definition finish ::
  "heap \<Rightarrow> nat \<Rightarrow> DynGraph \<times> error option \<Rightarrow> heap \<times> (error + nat)" where
  "finish h r res =
     (h\<lparr>objs := (objs h)(r := GraphObj (fst res))\<rparr>,
      case snd res of None \<Rightarrow> Inr r | Some err \<Rightarrow> Inl err)"

text \<open>The timeline of a pair in the graph a reference points to.\<close>

definition timeline_of :: "heap \<Rightarrow> nat \<Rightarrow> pyval \<Rightarrow> pyval \<Rightarrow> pyval list" where
  "timeline_of h r u v = (case objs h r of GraphObj G \<Rightarrow> timeline G u v | NoClearObj \<Rightarrow> [])"

text \<open>A heap with no graph in it.\<close>

definition heap0 :: heap where
  "heap0 = \<lparr>objs = (\<lambda>r. NoClearObj), fresh = 0\<rparr>"

definition parse_interactions ::
  "string list \<Rightarrow> string \<Rightarrow> string option \<Rightarrow> nat option \<Rightarrow> converter option \<Rightarrow>
   converter option \<Rightarrow> (pyval \<Rightarrow> pyval option) option \<Rightarrow> heap \<Rightarrow> heap \<times> (error + nat)" where
  "parse_interactions lines comments delimiter create_using nodetype timestamptype keys h =
     (case create_using of
        None \<Rightarrow>
          finish (h\<lparr>fresh := Suc (fresh h)\<rparr>) (fresh h)
            (interactions_loop comments delimiter nodetype timestamptype keys lines
               DynGraph_new)
      | Some r \<Rightarrow>
          (case objs h r of
             NoClearObj \<Rightarrow> (h, Inl TypeError_create_using)
           | GraphObj G \<Rightarrow>
               finish h r
                 (interactions_loop comments delimiter nodetype timestamptype keys lines
                    (clear G))))"

section \<open>Snapshot reconstructor\<close>

text \<open>
  The tokens of a snapshot line: fewer than three are skipped, exactly three have no edge
  identifier, and otherwise the first four are taken.
\<close>

definition snapshot_fields ::
  "string \<Rightarrow> string option \<Rightarrow> string \<Rightarrow>
   error + (string \<times> string \<times> string \<times> string option) option" where
  "snapshot_fields comments delimiter line0 =
     (let line = strip_comment comments line0 in
      if length line = 0 then Inr None
      else case py_split delimiter (strip line) of
             Inl err \<Rightarrow> Inl err
           | Inr s \<Rightarrow>
               if length s < 3 then Inr None
               else if length s = 3 then Inr (Some (s ! 0, s ! 1, s ! 2, None))
               else Inr (Some (s ! 0, s ! 1, s ! 2, Some (s ! 3))))"

text \<open>Lines 232 to 238: the registration, through the index when there is one.\<close>

definition register_snapshot ::
  "(pyval \<Rightarrow> pyval option) option \<Rightarrow> pyval \<Rightarrow> pyval \<Rightarrow> pyval \<Rightarrow> string option \<Rightarrow>
   DynGraph \<Rightarrow> DynGraph \<times> error option" where
  "register_snapshot keys u v t e G =
     (case keys of
        Some k \<Rightarrow>
          (case e of
             Some e' \<Rightarrow>
               (case getitem k t of
                  Inl err \<Rightarrow> (G, Some err)
                | Inr kt \<Rightarrow>
                    (case getitem k (PStr e') of
                       Inl err \<Rightarrow> (G, Some err)
                     | Inr ke \<Rightarrow> (add_interaction G u v kt (Some ke), None)))
           | None \<Rightarrow>
               (case getitem k t of
                  Inl err \<Rightarrow> (G, Some err)
                | Inr kt \<Rightarrow> (add_interaction G u v kt None, None)))
      | None \<Rightarrow> (add_interaction G u v t (map_option PStr e), None))"

text \<open>Lines 200 to 231: the converted record of a snapshot line.\<close>

definition snapshot_record ::
  "string \<Rightarrow> string option \<Rightarrow> converter option \<Rightarrow> converter option \<Rightarrow> string \<Rightarrow>
   error + (pyval \<times> pyval \<times> pyval \<times> string option) option" where
  "snapshot_record comments delimiter nodetype timestamptype line =
     (case snapshot_fields comments delimiter line of
        Inl err \<Rightarrow> Inl err
      | Inr None \<Rightarrow> Inr None
      | Inr (Some (u, v, t, e)) \<Rightarrow>
          (case convert_nodes nodetype u v of
             Inl err \<Rightarrow> Inl err
           | Inr (u', v') \<Rightarrow>
               (case convert_timestamp nodetype timestamptype t of
                  Inl err \<Rightarrow> Inl err
                | Inr t' \<Rightarrow> Inr (Some (u', v', t', e)))))"

definition snapshot_line ::
  "string \<Rightarrow> string option \<Rightarrow> converter option \<Rightarrow> converter option \<Rightarrow>
   (pyval \<Rightarrow> pyval option) option \<Rightarrow> string \<Rightarrow> DynGraph \<Rightarrow> DynGraph \<times> error option" where
  "snapshot_line comments delimiter nodetype timestamptype keys line G =
     (case snapshot_record comments delimiter nodetype timestamptype line of
        Inl err \<Rightarrow> (G, Some err)
      | Inr None \<Rightarrow> (G, None)
      | Inr (Some (u, v, t, e)) \<Rightarrow> register_snapshot keys u v t e G)"

fun snapshots_loop ::
  "string \<Rightarrow> string option \<Rightarrow> converter option \<Rightarrow> converter option \<Rightarrow>
   (pyval \<Rightarrow> pyval option) option \<Rightarrow> string list \<Rightarrow> DynGraph \<Rightarrow> DynGraph \<times> error option" where
  "snapshots_loop comments delimiter nodetype timestamptype keys [] G = (G, None)"
| "snapshots_loop comments delimiter nodetype timestamptype keys (line # lines) G =
     (case snapshot_line comments delimiter nodetype timestamptype keys line G of
        (G', Some err) \<Rightarrow> (G', Some err)
      | (G', None) \<Rightarrow>
          snapshots_loop comments delimiter nodetype timestamptype keys lines G')"

definition parse_snapshots ::
  "string list \<Rightarrow> string \<Rightarrow> string option \<Rightarrow> nat option \<Rightarrow> converter option \<Rightarrow>
   converter option \<Rightarrow> (pyval \<Rightarrow> pyval option) option \<Rightarrow> heap \<Rightarrow> heap \<times> (error + nat)" where
  "parse_snapshots lines comments delimiter create_using nodetype timestamptype keys h =
     (case create_using of
        None \<Rightarrow>
          finish (h\<lparr>fresh := Suc (fresh h)\<rparr>) (fresh h)
            (snapshots_loop comments delimiter nodetype timestamptype keys lines
               DynGraph_new)
      | Some r \<Rightarrow>
          (case objs h r of
             NoClearObj \<Rightarrow> (h, Inl TypeError_create_using)
           | GraphObj G \<Rightarrow>
               finish h r
                 (snapshots_loop comments delimiter nodetype timestamptype keys lines
                    (clear G))))"

section \<open>Timestamp index builder\<close>

text \<open>
  \<^verbatim>\<open>ids\<close> is a dictionary whose values are all \<^verbatim>\<open>None\<close>: the list of its keys, in
  insertion order. \<^verbatim>\<open>ids[k] = None\<close> adds the key when it is new.
\<close>

definition ids_add :: "pyval \<Rightarrow> pyval list \<Rightarrow> pyval list" where
  "ids_add k ids = (if k \<in> set ids then ids else ids @ [k])"

text \<open>
  \<^verbatim>\<open>timestamptype(tok)\<close> outside any \<^verbatim>\<open>try\<close>: calling \<^verbatim>\<open>None\<close> raises \<^verbatim>\<open>TypeError\<close>, and
  what the converter raises goes through.
\<close>

definition call_timestamptype :: "converter option \<Rightarrow> string \<Rightarrow> error + pyval" where
  "call_timestamptype timestamptype tok =
     (case timestamptype of
        None \<Rightarrow> Inl TypeError_not_callable
      | Some c \<Rightarrow>
          (case conv c tok of
             None \<Rightarrow> Inl (ConverterRaised (conv_name c) tok)
           | Some x \<Rightarrow> Inr x))"

text \<open>
  The body of the loop of \<^verbatim>\<open>read_ids\<close>. \<^verbatim>\<open>s[-1]\<close> and \<^verbatim>\<open>s[-2]\<close> raise \<^verbatim>\<open>IndexError\<close> on a
  list that is too short; the test on line 272 is on \<^verbatim>\<open>len(line)\<close>, the number of
  characters of the line.
\<close>

definition read_ids_line ::
  "string option \<Rightarrow> converter option \<Rightarrow> string \<Rightarrow> pyval list \<Rightarrow> error + pyval list" where
  "read_ids_line delimiter timestamptype line ids =
     (case py_split delimiter (rstrip line) of
        Inl err \<Rightarrow> Inl err
      | Inr s \<Rightarrow>
          if length s < 1 then Inl IndexError
          else case call_timestamptype timestamptype (s ! (length s - 1)) of
                 Inl err \<Rightarrow> Inl err
               | Inr x \<Rightarrow>
                   if length line = 4 then
                     (if length s < 2 then Inl IndexError
                      else if s ! (length s - 2) \<notin> set [''+'', ''-''] then
                        (case call_timestamptype timestamptype (s ! (length s - 2)) of
                           Inl err \<Rightarrow> Inl err
                         | Inr y \<Rightarrow> Inr (ids_add y (ids_add x ids)))
                      else Inr (ids_add x ids))
                   else Inr (ids_add x ids))"

fun collect_ids ::
  "string option \<Rightarrow> converter option \<Rightarrow> string list \<Rightarrow> pyval list \<Rightarrow> error + pyval list" where
  "collect_ids delimiter timestamptype [] ids = Inr ids"
| "collect_ids delimiter timestamptype (line # f) ids =
     (case read_ids_line delimiter timestamptype line ids of
        Inl err \<Rightarrow> Inl err
      | Inr ids' \<Rightarrow> collect_ids delimiter timestamptype f ids')"

text \<open>
  \<^verbatim>\<open>read_ids\<close>, on the lines of the file at \<^verbatim>\<open>path\<close>. The helper \<^verbatim>\<open>clean_timeslot\<close> of
  \<^verbatim>\<open>dynetx.utils\<close> is not part of the module and is a parameter.
\<close>

definition read_ids ::
  "(pyval list \<Rightarrow> pyval \<Rightarrow> pyval option) \<Rightarrow> string list \<Rightarrow> string option \<Rightarrow>
   converter option \<Rightarrow> error + (pyval \<Rightarrow> pyval option)" where
  "read_ids clean_timeslot f delimiter timestamptype =
     (case collect_ids delimiter timestamptype f [] of
        Inl err \<Rightarrow> Inl err
      | Inr ids \<Rightarrow> Inr (clean_timeslot ids))"

section \<open>Reading a file\<close>

text \<open>
  \<^verbatim>\<open>read_interactions\<close> and \<^verbatim>\<open>read_snapshots\<close> on a file given by its decoded lines:
  the index is built first when \<^verbatim>\<open>keys\<close> is true, then the lines are parsed.
\<close>

definition read_interactions ::
  "(pyval list \<Rightarrow> pyval \<Rightarrow> pyval option) \<Rightarrow> string list \<Rightarrow> string \<Rightarrow> string option \<Rightarrow>
   nat option \<Rightarrow> converter option \<Rightarrow> converter option \<Rightarrow> bool \<Rightarrow> heap \<Rightarrow>
   heap \<times> (error + nat)" where
  "read_interactions clean_timeslot path comments delimiter create_using nodetype
     timestamptype keys h =
     (if keys then
        (case read_ids clean_timeslot path delimiter timestamptype of
           Inl err \<Rightarrow> (h, Inl err)
         | Inr ids \<Rightarrow>
             parse_interactions path comments delimiter create_using nodetype
               timestamptype (Some ids) h)
      else parse_interactions path comments delimiter create_using nodetype
             timestamptype None h)"

definition read_snapshots ::
  "(pyval list \<Rightarrow> pyval \<Rightarrow> pyval option) \<Rightarrow> string list \<Rightarrow> string \<Rightarrow> string option \<Rightarrow>
   nat option \<Rightarrow> converter option \<Rightarrow> converter option \<Rightarrow> bool \<Rightarrow> heap \<Rightarrow>
   heap \<times> (error + nat)" where
  "read_snapshots clean_timeslot path comments delimiter create_using nodetype
     timestamptype keys h =
     (if keys then
        (case read_ids clean_timeslot path delimiter timestamptype of
           Inl err \<Rightarrow> (h, Inl err)
         | Inr ids \<Rightarrow>
             parse_snapshots path comments delimiter create_using nodetype
               timestamptype (Some ids) h)
      else parse_snapshots path comments delimiter create_using nodetype
             timestamptype None h)"

section \<open>Snapshot serializer\<close>

text \<open>
  What the serializer handles: nodes, the data dictionary of an edge and the entries of
  its timeline are arbitrary objects. The dictionary is the list of its items in
  iteration order.
\<close>

datatype obj = ONone | OInt int | OStr string | OList "obj list"

text \<open>\<^verbatim>\<open>t[i]\<close> for a non-negative \<open>i\<close>.\<close>

fun subscript :: "obj \<Rightarrow> nat \<Rightarrow> error + obj" where
  "subscript (OList xs) i = (if i < length xs then Inr (xs ! i) else Inl IndexError)"
| "subscript (OStr s) i = (if i < length s then Inr (OStr [s ! i]) else Inl IndexError)"
| "subscript ONone i = Inl TypeError_subscript"
| "subscript (OInt n) i = Inl TypeError_subscript"

text \<open>\<^verbatim>\<open>for t in x\<close>: the items the loop visits.\<close>

fun iterate :: "obj \<Rightarrow> error + obj list" where
  "iterate (OList xs) = Inr xs"
| "iterate (OStr s) = Inr (map (\<lambda>c. OStr [c]) s)"
| "iterate ONone = Inl TypeError_not_iterable"
| "iterate (OInt n) = Inl TypeError_not_iterable"

text \<open>\<^verbatim>\<open>xrange(a, b)\<close>, Python 2's name of the lazy \<^verbatim>\<open>range\<close>.\<close>

fun xrange :: "obj \<Rightarrow> obj \<Rightarrow> error + int list" where
  "xrange (OInt a) (OInt b) = Inr [a..b - 1]"
| "xrange a b = Inl TypeError_range"

text \<open>\<^verbatim>\<open>delimiter.join(xs)\<close>\<close>

fun join :: "string \<Rightarrow> string list \<Rightarrow> string" where
  "join delimiter [] = []"
| "join delimiter [x] = x"
| "join delimiter (x # y # xs) = x @ delimiter @ join delimiter (y # xs)"

text \<open>
  \<^verbatim>\<open>generate_interactions\<close> on the tuples \<^verbatim>\<open>G.stream_interactions()\<close> yields. That method
  and \<^verbatim>\<open>make_str\<close> of \<^verbatim>\<open>dynetx.utils\<close> are not part of the module and are parameters.
\<close>

definition generate_interactions :: "('a \<Rightarrow> string) \<Rightarrow> 'a list list \<Rightarrow> string \<Rightarrow> string list" where
  "generate_interactions make_str stream delimiter =
     map (\<lambda>e. join delimiter (map make_str e)) stream"

text \<open>
  The fields of the line of one timeline entry \<open>t\<close> of the edge \<open>(u, v)\<close> with data \<open>d\<close>,
  lines 154 to 162. The inner loop assigns \<^verbatim>\<open>e = [u, v, t]\<close> on each of its iterations.
\<close>

definition entry_fields :: "obj \<Rightarrow> obj \<Rightarrow> (string \<times> obj) list \<Rightarrow> obj \<Rightarrow> error + obj list" where
  "entry_fields u v d t =
     (case subscript t 0 of
        Inl err \<Rightarrow> Inl err
      | Inr t0 \<Rightarrow>
          (case subscript t 1 of
             Inl err \<Rightarrow> Inl err
           | Inr t1 \<Rightarrow>
               (if t1 \<noteq> ONone \<or> t0 \<noteq> t1 then
                  (case xrange t0 t1 of
                     Inl err \<Rightarrow> Inl err
                   | Inr r \<Rightarrow>
                       Inr (fold (\<lambda>s e. [u, v, t]) r [u, v, t0]
                            @ map snd (filter (\<lambda>(k, x). k \<noteq> ''t'') d)))
                else Inr ([u, v, t0] @ map snd (filter (\<lambda>(k, x). k \<noteq> ''t'') d)))))"

text \<open>
  The loop over the timeline of one edge: the lines yielded and what was raised, if
  anything. \<^verbatim>\<open>make_str\<close> of \<^verbatim>\<open>dynetx.utils\<close> is not part of the module and is a parameter.
\<close>

fun entry_lines ::
  "(obj \<Rightarrow> string) \<Rightarrow> string \<Rightarrow> obj \<Rightarrow> obj \<Rightarrow> (string \<times> obj) list \<Rightarrow> obj list \<Rightarrow>
   string list \<times> error option" where
  "entry_lines make_str delimiter u v d [] = ([], None)"
| "entry_lines make_str delimiter u v d (t # ts) =
     (case entry_fields u v d t of
        Inl err \<Rightarrow> ([], Some err)
      | Inr e \<Rightarrow>
          (case entry_lines make_str delimiter u v d ts of
             (ls, err) \<Rightarrow> (join delimiter (map make_str e) # ls, err)))"

text \<open>
  \<^verbatim>\<open>generate_snapshots\<close> on the triples \<^verbatim>\<open>G.interactions()\<close> yields. \<^verbatim>\<open>raise NotImplemented\<close>
  raises \<^verbatim>\<open>TypeError\<close>, since \<^verbatim>\<open>NotImplemented\<close> is not an exception.
\<close>

fun generate_snapshots ::
  "(obj \<Rightarrow> string) \<Rightarrow> (obj \<times> obj \<times> (string \<times> obj) list) list \<Rightarrow> string \<Rightarrow>
   string list \<times> error option" where
  "generate_snapshots make_str [] delimiter = ([], None)"
| "generate_snapshots make_str ((u, v, d) # rest) delimiter =
     (case map_of d ''t'' of
        None \<Rightarrow> ([], Some TypeError_raise_NotImplemented)
      | Some ts \<Rightarrow>
          (case iterate ts of
             Inl err \<Rightarrow> ([], Some err)
           | Inr entries \<Rightarrow>
               (case entry_lines make_str delimiter u v d entries of
                  (ls, Some err) \<Rightarrow> (ls, Some err)
                | (ls, None) \<Rightarrow>
                    (case generate_snapshots make_str rest delimiter of
                       (ls', err) \<Rightarrow> (ls @ ls', err)))))"

section \<open>A converter for integers\<close>

text \<open>
  The builtin \<^verbatim>\<open>int\<close> on a token: surrounding whitespace is dropped, then an optional
  sign and one or more decimal digits are read; anything else raises.
\<close>

definition digit_val :: "char \<Rightarrow> nat option" where
  "digit_val c =
     (let n = (of_char c :: nat) in if 48 \<le> n \<and> n \<le> 57 then Some (n - 48) else None)"

fun digits :: "nat \<Rightarrow> string \<Rightarrow> nat option" where
  "digits acc [] = Some acc"
| "digits acc (c # cs) =
     (case digit_val c of None \<Rightarrow> None | Some d \<Rightarrow> digits (10 * acc + d) cs)"

definition py_int :: "string \<Rightarrow> pyval option" where
  "py_int tok =
     (case strip tok of
        [] \<Rightarrow> None
      | c # cs \<Rightarrow>
          if c = CHR ''-'' then
            (if cs = [] then None else map_option (\<lambda>n. PInt (- int n)) (digits 0 cs))
          else if c = CHR ''+'' then
            (if cs = [] then None else map_option (\<lambda>n. PInt (int n)) (digits 0 cs))
          else map_option (\<lambda>n. PInt (int n)) (digits 0 (c # cs)))"

definition int_type :: converter where
  "int_type = \<lparr>conv_name = ''int'', conv = py_int\<rparr>"

text \<open>The builtin \<^verbatim>\<open>str\<close> on a token: the token itself.\<close>

definition str_type :: converter where
  "str_type = \<lparr>conv_name = ''str'', conv = (\<lambda>tok. Some (PStr tok))\<rparr>"

text \<open>A heap whose reference 0 is a graph with one entry for the pair \<open>(8, 9)\<close>.\<close>

definition heap1 :: heap where
  "heap1 = heap0\<lparr>objs := (objs heap0)
     (0 := GraphObj (add_interaction DynGraph_new (PInt 8) (PInt 9) (PInt 7) None))\<rparr>"

text \<open>The index of a file whose timestamps are 0 and 5: their ranks in ascending order.\<close>

definition keys_0_5 :: "pyval \<Rightarrow> pyval option" where
  "keys_0_5 = [PInt 0 \<mapsto> PInt 0, PInt 5 \<mapsto> PInt 1]"

section \<open>Growth of a graph\<close>

text \<open>
  What every registration preserves: nodes and edges stay, the timeline of a pair keeps
  its timestamps, and a timeline without repeated timestamps stays so.
\<close>

definition extends :: "DynGraph \<Rightarrow> DynGraph \<Rightarrow> bool" where
  "extends G G' \<longleftrightarrow>
     nodes G \<subseteq> nodes G' \<and>
     (\<forall>u v. (edges G {u, v} \<noteq> None \<longrightarrow> edges G' {u, v} \<noteq> None) \<and>
            set (timeline G u v) \<subseteq> set (timeline G' u v) \<and>
            (distinct (timeline G u v) \<longrightarrow> distinct (timeline G' u v)))"

section \<open>Facts about the graph and the loops\<close>

lemma timeline_new: "timeline DynGraph_new u v = []"
  by (simp add: timeline_def DynGraph_new_def)

lemma timeline_add_interaction:
  "timeline (add_interaction G a b t e) u v =
     (if {a, b} = {u, v}
      then (if t \<in> set (timeline G u v) then timeline G u v else timeline G u v @ [t])
      else timeline G u v)"
  by (auto simp: timeline_def add_interaction_def record_entry_def split: option.splits)

lemma edges_add_interaction_other:
  "{a, b} \<noteq> {u, v} \<Longrightarrow> edges (add_interaction G a b t e) {u, v} = edges G {u, v}"
  by (simp add: add_interaction_def)

lemma edge_t_add_interaction:
  "edge_t (add_interaction G u v t e) u v = Inr (timeline (add_interaction G u v t e) u v)"
  by (simp add: edge_t_def timeline_def add_interaction_def)

lemma edge_t_timeline: "edge_t G u v = Inr ts \<Longrightarrow> timeline G u v = ts"
  by (auto simp: edge_t_def timeline_def split: if_splits option.splits)

lemma extends_refl: "extends G G"
  by (simp add: extends_def)

lemma extends_trans: "extends G G' \<Longrightarrow> extends G' G'' \<Longrightarrow> extends G G''"
  unfolding extends_def by (meson subset_trans)

lemma extends_add_interaction: "extends G (add_interaction G a b t e)"
  unfolding extends_def
proof (intro conjI allI)
  show "nodes G \<subseteq> nodes (add_interaction G a b t e)"
    by (auto simp: add_interaction_def)
next
  fix u v
  show "edges G {u, v} \<noteq> None \<longrightarrow> edges (add_interaction G a b t e) {u, v} \<noteq> None"
    by (simp add: add_interaction_def)
  show "set (timeline G u v) \<subseteq> set (timeline (add_interaction G a b t e) u v)"
    by (auto simp: timeline_add_interaction)
  show "distinct (timeline G u v) \<longrightarrow> distinct (timeline (add_interaction G a b t e) u v)"
    by (auto simp: timeline_add_interaction)
qed

lemma extends_expand: "extends G (fst (expand keys a b ts G))"
proof (induction ts arbitrary: G)
  case Nil
  show ?case by (simp add: extends_refl)
next
  case (Cons t ts)
  show ?case
  proof (cases keys)
    case None
    then show ?thesis
      using extends_trans [OF extends_add_interaction Cons.IH] by simp
  next
    case (Some k)
    show ?thesis
    proof (cases "getitem k (PInt t)")
      case (Inl err)
      then show ?thesis using Some by (simp add: extends_refl)
    next
      case (Inr t')
      then show ?thesis
        using Some extends_trans [OF extends_add_interaction Cons.IH] by simp
    qed
  qed
qed

lemma extends_register_op: "extends G (fst (register_op keys a b op s G))"
  by (auto simp: register_op_def extends_refl extends_add_interaction extends_expand
      split: option.splits sum.splits)

lemma extends_interaction_line: "extends G (fst (interaction_line c d nt tt keys l G))"
  by (auto simp: interaction_line_def extends_refl extends_register_op
      split: option.splits sum.splits)

lemma extends_interactions_loop: "extends G (fst (interactions_loop c d nt tt keys ls G))"
proof (induction ls arbitrary: G)
  case Nil
  show ?case by (simp add: extends_refl)
next
  case (Cons l ls)
  obtain G' r where line: "interaction_line c d nt tt keys l G = (G', r)"
    by (cases "interaction_line c d nt tt keys l G")
  have step: "extends G G'"
    using extends_interaction_line [of G c d nt tt keys l] line by simp
  show ?case
  proof (cases r)
    case None
    then show ?thesis
      using line extends_trans [OF step Cons.IH [of G']] by simp
  next
    case (Some err)
    then show ?thesis using line step by simp
  qed
qed

lemma extends_register_snapshot: "extends G (fst (register_snapshot keys a b t e G))"
  by (auto simp: register_snapshot_def extends_refl extends_add_interaction
      split: option.splits sum.splits)

lemma extends_snapshot_line: "extends G (fst (snapshot_line c d nt tt keys l G))"
  by (auto simp: snapshot_line_def extends_refl extends_register_snapshot
      split: option.splits sum.splits)

lemma extends_snapshots_loop: "extends G (fst (snapshots_loop c d nt tt keys ls G))"
proof (induction ls arbitrary: G)
  case Nil
  show ?case by (simp add: extends_refl)
next
  case (Cons l ls)
  obtain G' r where line: "snapshot_line c d nt tt keys l G = (G', r)"
    by (cases "snapshot_line c d nt tt keys l G")
  have step: "extends G G'"
    using extends_snapshot_line [of G c d nt tt keys l] line by simp
  show ?case
  proof (cases r)
    case None
    then show ?thesis
      using line extends_trans [OF step Cons.IH [of G']] by simp
  next
    case (Some err)
    then show ?thesis using line step by simp
  qed
qed

lemma frame_expand:
  assumes ne: "{a, b} \<noteq> {u, v}"
  shows "edges (fst (expand keys a b ts G)) {u, v} = edges G {u, v}"
proof (induction ts arbitrary: G)
  case Nil
  show ?case by simp
next
  case (Cons t ts)
  note other = edges_add_interaction_other [OF ne]
  show ?case
  proof (cases keys)
    case None
    then show ?thesis using Cons.IH by (simp add: other)
  next
    case (Some k)
    then show ?thesis
      using Cons.IH by (cases "getitem k (PInt t)") (simp_all add: other)
  qed
qed

lemma frame_register_op:
  assumes ne: "{a, b} \<noteq> {u, v}"
  shows "edges (fst (register_op keys a b op s G)) {u, v} = edges G {u, v}"
  by (simp add: register_op_def edges_add_interaction_other [OF ne] frame_expand [OF ne]
      split: option.splits sum.splits)

lemma frame_interaction_line:
  assumes "\<forall>a b op s. interaction_record c d nt tt l = Inr (Some (a, b, op, s)) \<longrightarrow>
             {a, b} \<noteq> {u, v}"
  shows "edges (fst (interaction_line c d nt tt keys l G)) {u, v} = edges G {u, v}"
proof (cases "interaction_record c d nt tt l")
  case (Inl err)
  then show ?thesis by (simp add: interaction_line_def)
next
  case (Inr r)
  show ?thesis
  proof (cases r)
    case None
    then show ?thesis using Inr by (simp add: interaction_line_def)
  next
    case (Some q)
    obtain a b op s where q: "q = (a, b, op, s)" by (cases q)
    have "{a, b} \<noteq> {u, v}" using assms Inr Some q by blast
    then show ?thesis
      using Inr Some q by (simp add: interaction_line_def frame_register_op)
  qed
qed

lemma frame_interactions_loop:
  assumes "\<forall>l\<in>set ls. \<forall>a b op s.
             interaction_record c d nt tt l = Inr (Some (a, b, op, s)) \<longrightarrow> {a, b} \<noteq> {u, v}"
  shows "edges (fst (interactions_loop c d nt tt keys ls G)) {u, v} = edges G {u, v}"
  using assms
proof (induction ls arbitrary: G)
  case Nil
  show ?case by simp
next
  case (Cons l ls)
  obtain G' r where line: "interaction_line c d nt tt keys l G = (G', r)"
    by (cases "interaction_line c d nt tt keys l G")
  have step: "edges G' {u, v} = edges G {u, v}"
    using frame_interaction_line [of c d nt tt l u v keys G] Cons.prems line by simp
  show ?case
  proof (cases r)
    case None
    then show ?thesis
      using line step Cons.IH [of G'] Cons.prems by simp
  next
    case (Some err)
    then show ?thesis using line step by simp
  qed
qed

lemma frame_register_snapshot:
  assumes ne: "{a, b} \<noteq> {u, v}"
  shows "edges (fst (register_snapshot keys a b t e G)) {u, v} = edges G {u, v}"
  by (simp add: register_snapshot_def edges_add_interaction_other [OF ne]
      split: option.splits sum.splits)

lemma frame_snapshot_line:
  assumes "\<forall>a b t e. snapshot_record c d nt tt l = Inr (Some (a, b, t, e)) \<longrightarrow>
             {a, b} \<noteq> {u, v}"
  shows "edges (fst (snapshot_line c d nt tt keys l G)) {u, v} = edges G {u, v}"
proof (cases "snapshot_record c d nt tt l")
  case (Inl err)
  then show ?thesis by (simp add: snapshot_line_def)
next
  case (Inr r)
  show ?thesis
  proof (cases r)
    case None
    then show ?thesis using Inr by (simp add: snapshot_line_def)
  next
    case (Some q)
    obtain a b t e where q: "q = (a, b, t, e)" by (cases q)
    have "{a, b} \<noteq> {u, v}" using assms Inr Some q by blast
    then show ?thesis
      using Inr Some q by (simp add: snapshot_line_def frame_register_snapshot)
  qed
qed

lemma frame_snapshots_loop:
  assumes "\<forall>l\<in>set ls. \<forall>a b t e.
             snapshot_record c d nt tt l = Inr (Some (a, b, t, e)) \<longrightarrow> {a, b} \<noteq> {u, v}"
  shows "edges (fst (snapshots_loop c d nt tt keys ls G)) {u, v} = edges G {u, v}"
  using assms
proof (induction ls arbitrary: G)
  case Nil
  show ?case by simp
next
  case (Cons l ls)
  obtain G' r where line: "snapshot_line c d nt tt keys l G = (G', r)"
    by (cases "snapshot_line c d nt tt keys l G")
  have step: "edges G' {u, v} = edges G {u, v}"
    using frame_snapshot_line [of c d nt tt l u v keys G] Cons.prems line by simp
  show ?case
  proof (cases r)
    case None
    then show ?thesis
      using line step Cons.IH [of G'] Cons.prems by simp
  next
    case (Some err)
    then show ?thesis using line step by simp
  qed
qed

lemma timeline_edges_cong: "edges G' {u, v} = edges G {u, v} \<Longrightarrow> timeline G' u v = timeline G u v"
  by (simp add: timeline_def)

lemma interactions_loop_append:
  "interactions_loop c d nt tt keys (xs @ ys) G =
     (case interactions_loop c d nt tt keys xs G of
        (G', Some err) \<Rightarrow> (G', Some err)
      | (G', None) \<Rightarrow> interactions_loop c d nt tt keys ys G')"
  by (induction xs arbitrary: G) (auto split: prod.splits option.splits)


lemma interactions_loop_Cons_ok:
  assumes "interactions_loop c d nt tt keys (l # ls) G = (G'', None)"
  shows "\<exists>G'. interaction_line c d nt tt keys l G = (G', None) \<and>
              interactions_loop c d nt tt keys ls G' = (G'', None)"
  using assms by (auto split: prod.splits option.splits)

lemma snapshots_loop_Cons_ok:
  assumes "snapshots_loop c d nt tt keys (l # ls) G = (G'', None)"
  shows "\<exists>G'. snapshot_line c d nt tt keys l G = (G', None) \<and>
              snapshots_loop c d nt tt keys ls G' = (G'', None)"
  using assms by (auto split: prod.splits option.splits)








section \<open>The interaction reconstructor on a start and its stop\<close>



section \<open>A stop with nothing to close\<close>

lemma close_not_after_last_start_is_noop:
  assumes "interaction_record c d nt tt line = Inr (Some (u, v, ''-'', s))"
    and "edge_t G u v = Inr ts"
    and "ts = [] \<or> py_lt (last ts) s = Inr False"
  shows "interaction_line c d nt tt keys line G = (G, None)"
  using assms by (auto simp: interaction_line_def register_op_def)

lemma close_on_missing_edge_raises:
  assumes "interaction_record c d nt tt line = Inr (Some (u, v, ''-'', s))"
    and "edge_t G u v = Inl err"
  shows "interaction_line c d nt tt keys line G = (G, Some err)"
  using assms by (simp add: interaction_line_def register_op_def)

lemma edge_t_new: "edge_t DynGraph_new u v = Inl (KeyError u)"
  by (simp add: edge_t_def DynGraph_new_def)

text \<open>
  Claim C2 has a record \<open>(u, v, '-', t)\<close> with no earlier start for the pair do nothing
  and raise nothing. Line 138 subscripts \<^verbatim>\<open>G.edge[u][v]['t']\<close> before line 139 tests
  \<^verbatim>\<open>len(timestamps) > 0\<close>: read with \<^verbatim>\<open>int\<close> into a new graph, the line \<^verbatim>\<open>1 2 - 3\<close>
  raises \<^verbatim>\<open>KeyError\<close> for the node 1, and after \<^verbatim>\<open>1 5 + 0\<close> it raises \<^verbatim>\<open>KeyError\<close> for the
  node 2. The other half of the claim holds: after \<^verbatim>\<open>1 2 + 5\<close> the line \<^verbatim>\<open>1 2 - 3\<close>
  raises nothing and leaves the timeline of the pair at its one entry 5.
\<close>

theorem close_on_unregistered_pair_raises:
  "snd (parse_interactions [''1 2 - 3''] ''#'' None None (Some int_type) (Some int_type)
          None heap0) = Inl (KeyError (PInt 1)) \<and>
   snd (parse_interactions [''1 5 + 0'', ''1 2 - 3''] ''#'' None None (Some int_type)
          (Some int_type) None heap0) = Inl (KeyError (PInt 2)) \<and>
   snd (parse_interactions [''1 2 + 5'', ''1 2 - 3''] ''#'' None None (Some int_type)
          (Some int_type) None heap0) = Inr 0 \<and>
   timeline_of (fst (parse_interactions [''1 2 + 5'', ''1 2 - 3''] ''#'' None None
          (Some int_type) (Some int_type) None heap0)) 0 (PInt 1) (PInt 2) = [PInt 5]"
  by code_simp

section \<open>Lines with the wrong number of fields\<close>

lemma split_of_empty_line: "py_split delimiter (strip []) = Inr s \<Longrightarrow> length s \<le> 1"
  by (auto simp: py_split_def strip_def rstrip_def split: option.splits if_splits)

text \<open>
  Claim C3, as the code has it. Let \<open>s\<close> be the fields of a line after the comment is cut
  and the rest is split. In \<^verbatim>\<open>parse_interactions\<close> a line with a number of fields other
  than 4 is skipped and leaves the graph as it is. In \<^verbatim>\<open>parse_snapshots\<close> a line with
  fewer than 3 fields is skipped and leaves the graph as it is; a line with more than 4
  fields is not skipped: its first four fields are taken as \<open>u\<close>, \<open>v\<close>, \<open>t\<close> and \<open>e\<close>.
\<close>

theorem malformed_line_skipped:
  assumes "py_split delimiter (strip (strip_comment comments line)) = Inr s"
  shows "(length s \<noteq> 4 \<longrightarrow>
            interaction_line comments delimiter nt tt keys line G = (G, None)) \<and>
         (length s < 3 \<longrightarrow>
            snapshot_line comments delimiter nt tt keys line G = (G, None)) \<and>
         (4 < length s \<longrightarrow>
            snapshot_fields comments delimiter line =
              Inr (Some (s ! 0, s ! 1, s ! 2, Some (s ! 3))))"
proof (intro conjI impI)
  assume "length s \<noteq> 4"
  then have "interaction_fields comments delimiter line = Inr None"
    using assms by (simp add: interaction_fields_def Let_def)
  then show "interaction_line comments delimiter nt tt keys line G = (G, None)"
    by (simp add: interaction_line_def interaction_record_def)
next
  assume "length s < 3"
  then have "snapshot_fields comments delimiter line = Inr None"
    using assms by (simp add: snapshot_fields_def Let_def)
  then show "snapshot_line comments delimiter nt tt keys line G = (G, None)"
    by (simp add: snapshot_line_def snapshot_record_def)
next
  assume long: "4 < length s"
  have "strip_comment comments line \<noteq> []"
  proof
    assume "strip_comment comments line = []"
    then have "length s \<le> 1"
      using assms split_of_empty_line by simp
    then show False using long by simp
  qed
  then show "snapshot_fields comments delimiter line =
               Inr (Some (s ! 0, s ! 1, s ! 2, Some (s ! 3)))"
    using assms long by (simp add: snapshot_fields_def Let_def)
qed

text \<open>
  The theorem on the lines \<^verbatim>\<open>1 2 5\<close> (three fields, read as an interaction),
  \<^verbatim>\<open>1 2 # 5\<close> (two fields once the comment is cut) and \<^verbatim>\<open>1 2 5 7 9\<close> (five fields).
\<close>

theorem malformed_line_skipped_witness:
  "interaction_line ''#'' None None None None ''1 2 5'' DynGraph_new = (DynGraph_new, None) \<and>
   snapshot_line ''#'' None None None None ''1 2 # 5'' DynGraph_new = (DynGraph_new, None) \<and>
   snapshot_fields ''#'' None ''1 2 5 7 9'' = Inr (Some (''1'', ''2'', ''5'', Some ''7''))"
proof -
  have three: "py_split None (strip (strip_comment ''#'' ''1 2 5'')) = Inr [''1'', ''2'', ''5'']"
    by code_simp
  have two: "py_split None (strip (strip_comment ''#'' ''1 2 # 5'')) = Inr [''1'', ''2'']"
    by code_simp
  have five: "py_split None (strip (strip_comment ''#'' ''1 2 5 7 9'')) =
                Inr [''1'', ''2'', ''5'', ''7'', ''9'']"
    by code_simp
  show ?thesis
    using malformed_line_skipped [OF three, of None None None DynGraph_new]
          malformed_line_skipped [OF two, of None None None DynGraph_new]
          malformed_line_skipped [OF five, of None None None DynGraph_new]
    by simp
qed

text \<open>
  Claim C3 as it is worded has \<^verbatim>\<open>parse_snapshots\<close> skip every line whose number of
  fields is not 3 or 4. The line \<^verbatim>\<open>1 2 5 7 9\<close> has five fields, and reading it registers
  an entry for the pair \<open>(1, 2)\<close>, which had none.
\<close>

theorem long_snapshot_line_counterexample:
  "py_split None (strip (strip_comment ''#'' ''1 2 5 7 9'')) =
     Inr [''1'', ''2'', ''5'', ''7'', ''9''] \<and>
   timeline DynGraph_new (PStr ''1'') (PStr ''2'') = [] \<and>
   snd (snapshot_line ''#'' None None None None ''1 2 5 7 9'' DynGraph_new) = None \<and>
   edges (fst (snapshot_line ''#'' None None None None ''1 2 5 7 9'' DynGraph_new))
       {PStr ''1'', PStr ''2''} = Some [(PStr ''5'', Some (PStr ''7''))]"
  by code_simp

section \<open>The graph to populate\<close>

lemma populated_interactions:
  assumes "interactions_loop c d nt tt keys ls G = (G', None)"
    and "l \<in> set ls"
    and "interaction_record c d nt tt l = Inr (Some (u, v, ''+'', s))"
  shows "(case keys of None \<Rightarrow> s | Some k \<Rightarrow> the (k s)) \<in> set (timeline G' u v)"
  using assms(1,2)
proof (induction ls arbitrary: G)
  case Nil
  then show ?case by simp
next
  case (Cons x xs)
  obtain G1 where line: "interaction_line c d nt tt keys x G = (G1, None)"
    and rest: "interactions_loop c d nt tt keys xs G1 = (G', None)"
    using interactions_loop_Cons_ok [OF Cons.prems(1)] by blast
  show ?case
  proof (cases "l = x")
    case True
    have reg: "register_op keys u v ''+'' s G = (G1, None)"
      using line assms(3) True by (simp add: interaction_line_def)
    have "(case keys of None \<Rightarrow> s | Some k \<Rightarrow> the (k s)) \<in> set (timeline G1 u v)"
    proof (cases keys)
      case None
      then show ?thesis
        using reg by (auto simp: register_op_def timeline_add_interaction)
    next
      case (Some k)
      then show ?thesis
        using reg
        by (auto simp: register_op_def getitem_def timeline_add_interaction
            split: option.splits)
    qed
    moreover have "extends G1 G'"
      using extends_interactions_loop [of G1 c d nt tt keys xs] rest by simp
    ultimately show ?thesis
      by (auto simp: extends_def)
  next
    case False
    then have "l \<in> set xs" using Cons.prems(2) by simp
    then show ?thesis using Cons.IH [OF rest] by simp
  qed
qed

lemma populated_snapshots:
  assumes "snapshots_loop c d nt tt keys ls G = (G', None)"
    and "l \<in> set ls"
    and "snapshot_record c d nt tt l = Inr (Some (u, v, t, e))"
  shows "(case keys of None \<Rightarrow> t | Some k \<Rightarrow> the (k t)) \<in> set (timeline G' u v)"
  using assms(1,2)
proof (induction ls arbitrary: G)
  case Nil
  then show ?case by simp
next
  case (Cons x xs)
  obtain G1 where line: "snapshot_line c d nt tt keys x G = (G1, None)"
    and rest: "snapshots_loop c d nt tt keys xs G1 = (G', None)"
    using snapshots_loop_Cons_ok [OF Cons.prems(1)] by blast
  show ?case
  proof (cases "l = x")
    case True
    have reg: "register_snapshot keys u v t e G = (G1, None)"
      using line assms(3) True by (simp add: snapshot_line_def)
    have "(case keys of None \<Rightarrow> t | Some k \<Rightarrow> the (k t)) \<in> set (timeline G1 u v)"
    proof (cases keys)
      case None
      then show ?thesis
        using reg by (auto simp: register_snapshot_def timeline_add_interaction)
    next
      case (Some k)
      then show ?thesis
        using reg
        by (auto simp: register_snapshot_def getitem_def timeline_add_interaction
            split: option.splits)
    qed
    moreover have "extends G1 G'"
      using extends_snapshots_loop [of G1 c d nt tt keys xs] rest by simp
    ultimately show ?thesis
      by (auto simp: extends_def)
  next
    case False
    then have "l \<in> set xs" using Cons.prems(2) by simp
    then show ?thesis using Cons.IH [OF rest] by simp
  qed
qed

lemma cleared_interactions:
  assumes "\<forall>l\<in>set ls. \<forall>a b op s.
             interaction_record c d nt tt l = Inr (Some (a, b, op, s)) \<longrightarrow> {a, b} \<noteq> {u, v}"
  shows "timeline (fst (interactions_loop c d nt tt keys ls DynGraph_new)) u v = []"
  using timeline_edges_cong [OF frame_interactions_loop [OF assms, of keys DynGraph_new]]
  by (simp add: timeline_new)

lemma cleared_snapshots:
  assumes "\<forall>l\<in>set ls. \<forall>a b t e.
             snapshot_record c d nt tt l = Inr (Some (a, b, t, e)) \<longrightarrow> {a, b} \<noteq> {u, v}"
  shows "timeline (fst (snapshots_loop c d nt tt keys ls DynGraph_new)) u v = []"
  using timeline_edges_cong [OF frame_snapshots_loop [OF assms, of keys DynGraph_new]]
  by (simp add: timeline_new)

text \<open>
  Claim C7. When \<^verbatim>\<open>create_using\<close> refers to an object whose \<^verbatim>\<open>clear()\<close> raises, both
  parsers raise the \<^verbatim>\<open>TypeError\<close> of line 100 (197) whatever the lines are, and the heap
  is as it was. When it refers to a graph, the object at that same reference becomes the
  graph the loop builds from the empty graph, no other object changes, and the
  reference itself is returned when no line raises. Cleared: a pair that no line of the
  input is a record for has no entry afterwards, whatever the graph held. Populated:
  when no line raises, the timeline of \<open>(u, v)\<close> holds the timestamp (through the
  index, when there is one) of every \<open>'+'\<close> record of \<^verbatim>\<open>parse_interactions\<close> and of every
  record of \<^verbatim>\<open>parse_snapshots\<close> for \<open>(u, v)\<close>.
\<close>

theorem create_using_cleared_or_rejected:
  "(objs h r = NoClearObj \<longrightarrow>
      parse_interactions lines c d (Some r) nt tt keys h = (h, Inl TypeError_create_using) \<and>
      parse_snapshots lines c d (Some r) nt tt keys h = (h, Inl TypeError_create_using)) \<and>
   (objs h r = GraphObj G0 \<longrightarrow>
      parse_interactions lines c d (Some r) nt tt keys h =
        (h\<lparr>objs := (objs h)
              (r := GraphObj (fst (interactions_loop c d nt tt keys lines DynGraph_new)))\<rparr>,
         case snd (interactions_loop c d nt tt keys lines DynGraph_new) of
           None \<Rightarrow> Inr r | Some err \<Rightarrow> Inl err) \<and>
      parse_snapshots lines c d (Some r) nt tt keys h =
        (h\<lparr>objs := (objs h)
              (r := GraphObj (fst (snapshots_loop c d nt tt keys lines DynGraph_new)))\<rparr>,
         case snd (snapshots_loop c d nt tt keys lines DynGraph_new) of
           None \<Rightarrow> Inr r | Some err \<Rightarrow> Inl err) \<and>
      (\<forall>u v. (\<forall>l\<in>set lines. \<forall>a b op s.
                 interaction_record c d nt tt l = Inr (Some (a, b, op, s)) \<longrightarrow>
                 {a, b} \<noteq> {u, v}) \<longrightarrow>
             timeline_of (fst (parse_interactions lines c d (Some r) nt tt keys h)) r u v
               = []) \<and>
      (\<forall>u v. (\<forall>l\<in>set lines. \<forall>a b t e.
                 snapshot_record c d nt tt l = Inr (Some (a, b, t, e)) \<longrightarrow>
                 {a, b} \<noteq> {u, v}) \<longrightarrow>
             timeline_of (fst (parse_snapshots lines c d (Some r) nt tt keys h)) r u v
               = []) \<and>
      (snd (parse_interactions lines c d (Some r) nt tt keys h) = Inr r \<longrightarrow>
         (\<forall>l\<in>set lines. \<forall>u v s.
            interaction_record c d nt tt l = Inr (Some (u, v, ''+'', s)) \<longrightarrow>
            (case keys of None \<Rightarrow> s | Some k \<Rightarrow> the (k s)) \<in>
              set (timeline_of (fst (parse_interactions lines c d (Some r) nt tt keys h))
                     r u v))) \<and>
      (snd (parse_snapshots lines c d (Some r) nt tt keys h) = Inr r \<longrightarrow>
         (\<forall>l\<in>set lines. \<forall>u v t e.
            snapshot_record c d nt tt l = Inr (Some (u, v, t, e)) \<longrightarrow>
            (case keys of None \<Rightarrow> t | Some k \<Rightarrow> the (k t)) \<in>
              set (timeline_of (fst (parse_snapshots lines c d (Some r) nt tt keys h))
                     r u v))))"
proof (intro conjI impI)
  assume "objs h r = NoClearObj"
  then show "parse_interactions lines c d (Some r) nt tt keys h =
               (h, Inl TypeError_create_using)"
    and "parse_snapshots lines c d (Some r) nt tt keys h = (h, Inl TypeError_create_using)"
    by (simp_all add: parse_interactions_def parse_snapshots_def)
next
  let ?iloop = "interactions_loop c d nt tt keys lines DynGraph_new"
  let ?sloop = "snapshots_loop c d nt tt keys lines DynGraph_new"
  assume graph: "objs h r = GraphObj G0"
  show pi: "parse_interactions lines c d (Some r) nt tt keys h =
        (h\<lparr>objs := (objs h)(r := GraphObj (fst ?iloop))\<rparr>,
         case snd ?iloop of None \<Rightarrow> Inr r | Some err \<Rightarrow> Inl err)"
    using graph
    by (simp add: parse_interactions_def finish_def clear_def DynGraph_new_def)
  show ps: "parse_snapshots lines c d (Some r) nt tt keys h =
        (h\<lparr>objs := (objs h)(r := GraphObj (fst ?sloop))\<rparr>,
         case snd ?sloop of None \<Rightarrow> Inr r | Some err \<Rightarrow> Inl err)"
    using graph
    by (simp add: parse_snapshots_def finish_def clear_def DynGraph_new_def)
  have ti: "timeline_of (fst (parse_interactions lines c d (Some r) nt tt keys h)) r u v =
              timeline (fst ?iloop) u v" for u v
    unfolding pi by (simp add: timeline_of_def)
  have ts: "timeline_of (fst (parse_snapshots lines c d (Some r) nt tt keys h)) r u v =
              timeline (fst ?sloop) u v" for u v
    unfolding ps by (simp add: timeline_of_def)
  show "\<forall>u v. (\<forall>l\<in>set lines. \<forall>a b op s.
                 interaction_record c d nt tt l = Inr (Some (a, b, op, s)) \<longrightarrow>
                 {a, b} \<noteq> {u, v}) \<longrightarrow>
             timeline_of (fst (parse_interactions lines c d (Some r) nt tt keys h)) r u v
               = []"
    unfolding ti using cleared_interactions by blast
  show "\<forall>u v. (\<forall>l\<in>set lines. \<forall>a b t e.
                 snapshot_record c d nt tt l = Inr (Some (a, b, t, e)) \<longrightarrow>
                 {a, b} \<noteq> {u, v}) \<longrightarrow>
             timeline_of (fst (parse_snapshots lines c d (Some r) nt tt keys h)) r u v
               = []"
    unfolding ts using cleared_snapshots by blast
  show "\<forall>l\<in>set lines. \<forall>u v s.
            interaction_record c d nt tt l = Inr (Some (u, v, ''+'', s)) \<longrightarrow>
            (case keys of None \<Rightarrow> s | Some k \<Rightarrow> the (k s)) \<in>
              set (timeline_of (fst (parse_interactions lines c d (Some r) nt tt keys h))
                     r u v)"
    if ok: "snd (parse_interactions lines c d (Some r) nt tt keys h) = Inr r"
  proof -
    have "snd ?iloop = None"
      using ok unfolding pi by (simp split: option.splits)
    then have "?iloop = (fst ?iloop, None)"
      by (metis prod.collapse)
    then show ?thesis
      unfolding ti using populated_interactions by blast
  qed
  show "\<forall>l\<in>set lines. \<forall>u v t e.
            snapshot_record c d nt tt l = Inr (Some (u, v, t, e)) \<longrightarrow>
            (case keys of None \<Rightarrow> t | Some k \<Rightarrow> the (k t)) \<in>
              set (timeline_of (fst (parse_snapshots lines c d (Some r) nt tt keys h))
                     r u v)"
    if ok: "snd (parse_snapshots lines c d (Some r) nt tt keys h) = Inr r"
  proof -
    have "snd ?sloop = None"
      using ok unfolding ps by (simp split: option.splits)
    then have "?sloop = (fst ?sloop, None)"
      by (metis prod.collapse)
    then show ?thesis
      unfolding ts using populated_snapshots by blast
  qed
qed

text \<open>
  The theorem on \<open>heap0\<close>, where reference 0 is an object without \<^verbatim>\<open>clear()\<close>, and on
  \<open>heap1\<close>, where it is a graph holding an entry for the pair \<open>(8, 9)\<close>: after either
  parse that entry is gone, the reference 0 is returned, and the pair \<open>(1, 2)\<close> holds
  what the line registers.
\<close>

theorem create_using_cleared_or_rejected_witness:
  "parse_interactions [''1 2 + 0''] ''#'' None (Some 0) (Some int_type) (Some int_type) None heap0 =
     (heap0, Inl TypeError_create_using) \<and>
   parse_snapshots [''1 2 5 7''] ''#'' None (Some 0) (Some int_type) (Some int_type) None heap0 =
     (heap0, Inl TypeError_create_using) \<and>
   timeline_of heap1 0 (PInt 8) (PInt 9) = [PInt 7] \<and>
   snd (parse_interactions [''1 2 + 0''] ''#'' None (Some 0) (Some int_type) (Some int_type)
          None heap1) = Inr 0 \<and>
   timeline_of (fst (parse_interactions [''1 2 + 0''] ''#'' None (Some 0) (Some int_type)
          (Some int_type) None heap1)) 0 (PInt 8) (PInt 9) = [] \<and>
   timeline_of (fst (parse_interactions [''1 2 + 0''] ''#'' None (Some 0) (Some int_type)
          (Some int_type) None heap1)) 0 (PInt 1) (PInt 2) = [PInt 0] \<and>
   snd (parse_snapshots [''1 2 5 7''] ''#'' None (Some 0) (Some int_type) (Some int_type)
          None heap1) = Inr 0 \<and>
   timeline_of (fst (parse_snapshots [''1 2 5 7''] ''#'' None (Some 0) (Some int_type)
          (Some int_type) None heap1)) 0 (PInt 8) (PInt 9) = [] \<and>
   timeline_of (fst (parse_snapshots [''1 2 5 7''] ''#'' None (Some 0) (Some int_type)
          (Some int_type) None heap1)) 0 (PInt 1) (PInt 2) = [PInt 5]"
proof -
  let ?pi = "\<lambda>h. parse_interactions [''1 2 + 0''] ''#'' None (Some 0) (Some int_type)
                  (Some int_type) None h"
  let ?ps = "\<lambda>h. parse_snapshots [''1 2 5 7''] ''#'' None (Some 0) (Some int_type)
                  (Some int_type) None h"
  have no_clear: "objs heap0 0 = NoClearObj"
    by (simp add: heap0_def)
  have graph: "objs heap1 0 =
                 GraphObj (add_interaction DynGraph_new (PInt 8) (PInt 9) (PInt 7) None)"
    by (simp add: heap1_def)
  have before: "timeline_of heap1 0 (PInt 8) (PInt 9) = [PInt 7]"
    by code_simp
  have irec: "interaction_record ''#'' None (Some int_type) (Some int_type) ''1 2 + 0'' =
                Inr (Some (PInt 1, PInt 2, ''+'', PInt 0))"
    by code_simp
  have srec: "snapshot_record ''#'' None (Some int_type) (Some int_type) ''1 2 5 7'' =
                Inr (Some (PInt 1, PInt 2, PInt 5, Some ''7''))"
    by code_simp
  have iok: "snd (interactions_loop ''#'' None (Some int_type) (Some int_type) None
                   [''1 2 + 0''] DynGraph_new) = None"
    by code_simp
  have sok: "snd (snapshots_loop ''#'' None (Some int_type) (Some int_type) None
                   [''1 2 5 7''] DynGraph_new) = None"
    by code_simp
  have iothers: "\<forall>l\<in>set [''1 2 + 0'']. \<forall>a b op s.
      interaction_record ''#'' None (Some int_type) (Some int_type) l =
        Inr (Some (a, b, op, s)) \<longrightarrow> {a, b} \<noteq> {PInt 8, PInt 9}"
    by (simp add: irec doubleton_eq_iff)
  have sothers: "\<forall>l\<in>set [''1 2 5 7'']. \<forall>a b t e.
      snapshot_record ''#'' None (Some int_type) (Some int_type) l =
        Inr (Some (a, b, t, e)) \<longrightarrow> {a, b} \<noteq> {PInt 8, PInt 9}"
    by (simp add: srec doubleton_eq_iff)
  note ri = create_using_cleared_or_rejected
      [where h = heap0 and r = 0 and lines = "[''1 2 + 0'']" and c = "''#''" and d = None
         and nt = "Some int_type" and tt = "Some int_type" and keys = None,
       THEN conjunct1, THEN mp, OF no_clear, THEN conjunct1]
  note rs = create_using_cleared_or_rejected
      [where h = heap0 and r = 0 and lines = "[''1 2 5 7'']" and c = "''#''" and d = None
         and nt = "Some int_type" and tt = "Some int_type" and keys = None,
       THEN conjunct1, THEN mp, OF no_clear, THEN conjunct2]
  note gi = create_using_cleared_or_rejected
      [where h = heap1 and r = 0 and lines = "[''1 2 + 0'']" and c = "''#''" and d = None
         and nt = "Some int_type" and tt = "Some int_type" and keys = None,
       THEN conjunct2, THEN mp, OF graph]
  note gs = create_using_cleared_or_rejected
      [where h = heap1 and r = 0 and lines = "[''1 2 5 7'']" and c = "''#''" and d = None
         and nt = "Some int_type" and tt = "Some int_type" and keys = None,
       THEN conjunct2, THEN mp, OF graph]
  have i_ret: "snd (?pi heap1) = Inr 0"
    using gi [THEN conjunct1] by (simp add: iok del: interactions_loop.simps)
  have s_ret: "snd (?ps heap1) = Inr 0"
    using gs [THEN conjunct2, THEN conjunct1] by (simp add: sok del: snapshots_loop.simps)
  have i_cleared: "timeline_of (fst (?pi heap1)) 0 (PInt 8) (PInt 9) = []"
    using gi iothers by blast
  have s_cleared: "timeline_of (fst (?ps heap1)) 0 (PInt 8) (PInt 9) = []"
    using gs sothers by blast
  have i_in: "PInt 0 \<in> set (timeline_of (fst (?pi heap1)) 0 (PInt 1) (PInt 2))"
  proof -
    have "\<forall>l\<in>set [''1 2 + 0'']. \<forall>u v s.
            interaction_record ''#'' None (Some int_type) (Some int_type) l =
              Inr (Some (u, v, ''+'', s)) \<longrightarrow>
            (case None of None \<Rightarrow> s | Some k \<Rightarrow> the (k s)) \<in>
              set (timeline_of (fst (?pi heap1)) 0 u v)"
      using gi i_ret by blast
    then show ?thesis using irec by simp
  qed
  have s_in: "PInt 5 \<in> set (timeline_of (fst (?ps heap1)) 0 (PInt 1) (PInt 2))"
  proof -
    have "\<forall>l\<in>set [''1 2 5 7'']. \<forall>u v t e.
            snapshot_record ''#'' None (Some int_type) (Some int_type) l =
              Inr (Some (u, v, t, e)) \<longrightarrow>
            (case None of None \<Rightarrow> t | Some k \<Rightarrow> the (k t)) \<in>
              set (timeline_of (fst (?ps heap1)) 0 u v)"
      using gs s_ret by blast
    then show ?thesis using srec by simp
  qed
  have i_len: "length (timeline_of (fst (?pi heap1)) 0 (PInt 1) (PInt 2)) = 1"
    by code_simp
  have s_len: "length (timeline_of (fst (?ps heap1)) 0 (PInt 1) (PInt 2)) = 1"
    by code_simp
  have i_all: "timeline_of (fst (?pi heap1)) 0 (PInt 1) (PInt 2) = [PInt 0]"
    using i_in i_len
    by (cases "timeline_of (fst (?pi heap1)) 0 (PInt 1) (PInt 2)") auto
  have s_all: "timeline_of (fst (?ps heap1)) 0 (PInt 1) (PInt 2) = [PInt 5]"
    using s_in s_len
    by (cases "timeline_of (fst (?ps heap1)) 0 (PInt 1) (PInt 2)") auto
  show ?thesis
    using ri rs before i_ret s_ret i_cleared s_cleared i_all s_all by blast
qed

section \<open>Reindexing without a timestamp type\<close>

lemma read_ids_line_without_converter:
  "read_ids_line delimiter None line ids =
     Inl (case py_split delimiter (rstrip line) of
            Inl err \<Rightarrow> err
          | Inr s \<Rightarrow> if s = [] then IndexError else TypeError_not_callable)"
  by (simp add: read_ids_line_def call_timestamptype_def split: sum.splits)

text \<open>
  Claim C9. With \<^verbatim>\<open>keys=True\<close> and \<^verbatim>\<open>timestamptype\<close> left at \<^verbatim>\<open>None\<close>, reading a file
  that has at least one line raises in \<^verbatim>\<open>read_ids\<close>, on the first line, before any
  graph is created or cleared: the heap is as it was. Whenever the first line has a
  token, the exception is the \<^verbatim>\<open>TypeError\<close> of calling \<^verbatim>\<open>None\<close>. This holds for
  \<^verbatim>\<open>read_interactions\<close> and for \<^verbatim>\<open>read_snapshots\<close>.
\<close>

theorem reindexing_without_timestamptype_raises:
  assumes "path \<noteq> []"
  shows "\<exists>err.
           read_interactions clean_timeslot path comments delimiter create_using nodetype
             None True h = (h, Inl err) \<and>
           read_snapshots clean_timeslot path comments delimiter create_using nodetype
             None True h = (h, Inl err) \<and>
           (\<forall>s. py_split delimiter (rstrip (hd path)) = Inr s \<and> s \<noteq> [] \<longrightarrow>
                err = TypeError_not_callable)"
proof -
  obtain line rest where path: "path = line # rest"
    using assms by (cases path) auto
  let ?err = "case py_split delimiter (rstrip line) of
                Inl err \<Rightarrow> err
              | Inr s \<Rightarrow> if s = [] then IndexError else TypeError_not_callable"
  have ids: "read_ids clean_timeslot path delimiter None = Inl ?err"
    by (simp add: read_ids_def path read_ids_line_without_converter)
  have "read_interactions clean_timeslot path comments delimiter create_using nodetype
          None True h = (h, Inl ?err)"
    by (simp add: read_interactions_def ids)
  moreover have "read_snapshots clean_timeslot path comments delimiter create_using nodetype
          None True h = (h, Inl ?err)"
    by (simp add: read_snapshots_def ids)
  moreover have "\<forall>s. py_split delimiter (rstrip (hd path)) = Inr s \<and> s \<noteq> [] \<longrightarrow>
                   ?err = TypeError_not_callable"
    by (simp add: path)
  ultimately show ?thesis by blast
qed

text \<open>The theorem on a file of the two lines \<^verbatim>\<open>1 2 + 0\<close> and \<^verbatim>\<open>1 2 - 3\<close>.\<close>

theorem reindexing_without_timestamptype_raises_witness:
  "read_interactions (\<lambda>ids. Map.empty) [''1 2 + 0'' @ [CHR 0x0A], ''1 2 - 3'' @ [CHR 0x0A]]
      ''#'' None None (Some int_type) None True heap0 = (heap0, Inl TypeError_not_callable) \<and>
   read_snapshots (\<lambda>ids. Map.empty) [''1 2 + 0'' @ [CHR 0x0A], ''1 2 - 3'' @ [CHR 0x0A]]
      ''#'' None None (Some int_type) None True heap0 = (heap0, Inl TypeError_not_callable)"
proof -
  have nonempty: "[''1 2 + 0'' @ [CHR 0x0A], ''1 2 - 3'' @ [CHR 0x0A]] \<noteq> []"
    by simp
  have toks: "py_split None (rstrip (hd [''1 2 + 0'' @ [CHR 0x0A], ''1 2 - 3'' @ [CHR 0x0A]])) =
                Inr [''1'', ''2'', ''+'', ''0'']"
    by code_simp
  obtain err where
    a: "read_interactions (\<lambda>ids. Map.empty) [''1 2 + 0'' @ [CHR 0x0A], ''1 2 - 3'' @ [CHR 0x0A]]
          ''#'' None None (Some int_type) None True heap0 = (heap0, Inl err)" and
    b: "read_snapshots (\<lambda>ids. Map.empty) [''1 2 + 0'' @ [CHR 0x0A], ''1 2 - 3'' @ [CHR 0x0A]]
          ''#'' None None (Some int_type) None True heap0 = (heap0, Inl err)" and
    c: "\<forall>s. py_split None (rstrip (hd [''1 2 + 0'' @ [CHR 0x0A], ''1 2 - 3'' @ [CHR 0x0A]])) = Inr s
          \<and> s \<noteq> [] \<longrightarrow> err = TypeError_not_callable"
    using reindexing_without_timestamptype_raises [OF nonempty] by blast
  have "err = TypeError_not_callable"
    using c toks by blast
  then show ?thesis using a b by simp
qed

section \<open>A stop under a timestamp index\<close>

lemma expand_keys_no_error:
  "snd (expand (Some k) u v ts G) = None \<longleftrightarrow> (\<forall>t\<in>set ts. k (PInt t) \<noteq> None)"
  by (induction ts arbitrary: G) (auto simp: getitem_def split: option.splits)

lemma expand_keys_stops:
  assumes "\<forall>x\<in>set xs. k (PInt x) \<noteq> None" and "k (PInt t) = None"
  shows "expand (Some k) u v (xs @ t # ys) G =
           (fold (\<lambda>x G. add_interaction G u v (the (k (PInt x))) None) xs G,
            Some (KeyError (PInt t)))"
  using assms by (induction xs arbitrary: G) (auto simp: getitem_def split: option.splits)

text \<open>
  Claim C10. With a timestamp index \<open>k\<close>, a record \<open>(u, v, '+', t0)\<close> stores the rank
  \<open>a = k[t0]\<close>; let it be the most recent entry of the pair. The record
  \<open>(u, v, '-', t1)\<close> that follows compares that rank with the raw timestamp \<open>t1\<close> and,
  when \<open>a < t1\<close>, looks up every raw integer of \<open>[a, t1)\<close> in \<open>k\<close>. The two lines raise
  nothing exactly when every integer of \<open>[a, t1)\<close> is a key of \<open>k\<close>. Otherwise the first
  integer \<open>t\<close> of the range that is not a key raises \<^verbatim>\<open>KeyError\<close> for \<open>t\<close>, with the
  registrations of the integers before \<open>t\<close> already made.
\<close>

theorem reindexed_close_looks_up_raw_steps:
  assumes plus: "interaction_record c d nt tt l1 = Inr (Some (u, v, ''+'', PInt t0))"
    and minus: "interaction_record c d nt tt l2 = Inr (Some (u, v, ''-'', PInt t1))"
    and ord: "k (PInt t0) = Some (PInt a)"
    and recent: "last (timeline (add_interaction G u v (PInt a) None) u v) = PInt a"
    and lt: "a < t1"
  shows "(snd (interactions_loop c d nt tt (Some k) [l1, l2] G) = None \<longleftrightarrow>
            (\<forall>t. a \<le> t \<and> t < t1 \<longrightarrow> k (PInt t) \<noteq> None)) \<and>
         (\<forall>t. a \<le> t \<and> t < t1 \<and> k (PInt t) = None \<and>
              (\<forall>x. a \<le> x \<and> x < t \<longrightarrow> k (PInt x) \<noteq> None) \<longrightarrow>
              snd (interactions_loop c d nt tt (Some k) [l1, l2] G) =
                Some (KeyError (PInt t)) \<and>
              fst (interactions_loop c d nt tt (Some k) [l1, l2] G) =
                fold (\<lambda>x G. add_interaction G u v (the (k (PInt x))) None) [a..t - 1]
                  (add_interaction G u v (PInt a) None))"
proof -
  let ?G1 = "add_interaction G u v (PInt a) None"
  have step1: "interaction_line c d nt tt (Some k) l1 G = (?G1, None)"
    using plus ord by (simp add: interaction_line_def register_op_def getitem_def)
  have edge1: "edge_t ?G1 u v = Inr (timeline ?G1 u v)"
    by (rule edge_t_add_interaction)
  have "PInt a \<in> set (timeline ?G1 u v)"
    by (simp add: timeline_add_interaction)
  then have nonempty: "timeline ?G1 u v \<noteq> []"
    by auto
  have step2: "interaction_line c d nt tt (Some k) l2 ?G1 =
                 expand (Some k) u v [a..t1 - 1] ?G1"
    using minus lt nonempty
    by (simp add: interaction_line_def register_op_def edge1 recent)
  have run: "interactions_loop c d nt tt (Some k) [l1, l2] G =
               expand (Some k) u v [a..t1 - 1] ?G1"
    by (simp add: step1 step2 split: prod.splits option.splits)
  have safe: "snd (expand (Some k) u v [a..t1 - 1] ?G1) = None \<longleftrightarrow>
                (\<forall>t. a \<le> t \<and> t < t1 \<longrightarrow> k (PInt t) \<noteq> None)"
    unfolding expand_keys_no_error by auto
  have stops: "snd (expand (Some k) u v [a..t1 - 1] ?G1) = Some (KeyError (PInt t)) \<and>
               fst (expand (Some k) u v [a..t1 - 1] ?G1) =
                 fold (\<lambda>x G. add_interaction G u v (the (k (PInt x))) None) [a..t - 1] ?G1"
    if t: "a \<le> t" "t < t1" "k (PInt t) = None"
      and before: "\<forall>x. a \<le> x \<and> x < t \<longrightarrow> k (PInt x) \<noteq> None" for t
  proof -
    have split: "[a..t1 - 1] = [a..t - 1] @ t # [t + 1..t1 - 1]"
      using t by (intro upto_split3) auto
    have pre: "\<forall>x\<in>set [a..t - 1]. k (PInt x) \<noteq> None"
      using before by auto
    show ?thesis
      unfolding split expand_keys_stops [OF pre t(3)] by simp
  qed
  show ?thesis
    unfolding run using safe stops by blast
qed

text \<open>
  The theorem on the lines \<^verbatim>\<open>1 2 + 0\<close> and \<^verbatim>\<open>1 2 - 5\<close> with the index of the timestamps
  0 and 5: the timestep 1 is not a key, and the second line raises \<^verbatim>\<open>KeyError\<close> for it
  after registering the rank of 0 once more, which the timeline already holds.
\<close>

theorem reindexed_close_looks_up_raw_steps_witness:
  "snd (interactions_loop ''#'' None (Some int_type) (Some int_type) (Some keys_0_5)
          [''1 2 + 0'', ''1 2 - 5''] DynGraph_new) = Some (KeyError (PInt 1)) \<and>
   timeline (fst (interactions_loop ''#'' None (Some int_type) (Some int_type)
          (Some keys_0_5) [''1 2 + 0'', ''1 2 - 5''] DynGraph_new)) (PInt 1) (PInt 2) =
     [PInt 0]"
proof -
  have plus: "interaction_record ''#'' None (Some int_type) (Some int_type) ''1 2 + 0'' =
                Inr (Some (PInt 1, PInt 2, ''+'', PInt 0))"
    by code_simp
  have minus: "interaction_record ''#'' None (Some int_type) (Some int_type) ''1 2 - 5'' =
                Inr (Some (PInt 1, PInt 2, ''-'', PInt 5))"
    by code_simp
  have ord: "keys_0_5 (PInt 0) = Some (PInt 0)"
    by (simp add: keys_0_5_def)
  have recent: "last (timeline (add_interaction DynGraph_new (PInt 1) (PInt 2) (PInt 0) None)
                  (PInt 1) (PInt 2)) = PInt 0"
    by code_simp
  have lt: "(0::int) < 5" by simp
  have missing: "(0::int) \<le> 1 \<and> (1::int) < 5 \<and> keys_0_5 (PInt 1) = None \<and>
                 (\<forall>x. 0 \<le> x \<and> x < 1 \<longrightarrow> keys_0_5 (PInt x) \<noteq> None)"
  proof -
    have "x = 0" if "0 \<le> x" "x < 1" for x :: int
      using that by simp
    then show ?thesis
      by (auto simp: keys_0_5_def)
  qed
  have range: "[0..(0::int)] = [0]"
    by code_simp
  have after: "timeline (fold (\<lambda>x G. add_interaction G (PInt 1) (PInt 2)
                    (the (keys_0_5 (PInt x))) None) [0]
                  (add_interaction DynGraph_new (PInt 1) (PInt 2) (PInt 0) None))
                (PInt 1) (PInt 2) = [PInt 0]"
    by (simp add: ord timeline_add_interaction timeline_new)
  from reindexed_close_looks_up_raw_steps
         [where k = keys_0_5 and G = DynGraph_new, OF plus minus ord recent lt]
  have "snd (interactions_loop ''#'' None (Some int_type) (Some int_type) (Some keys_0_5)
               [''1 2 + 0'', ''1 2 - 5''] DynGraph_new) = Some (KeyError (PInt 1)) \<and>
        fst (interactions_loop ''#'' None (Some int_type) (Some int_type)
               (Some keys_0_5) [''1 2 + 0'', ''1 2 - 5''] DynGraph_new) =
          fold (\<lambda>x G. add_interaction G (PInt 1) (PInt 2) (the (keys_0_5 (PInt x))) None)
            [0..1 - 1] (add_interaction DynGraph_new (PInt 1) (PInt 2) (PInt 0) None)"
    using missing by blast
  then show ?thesis
    using after by (simp add: range del: interactions_loop.simps fold_simps)
qed

section \<open>Candidates of the timestamp index\<close>

lemma read_ids_line_other_length:
  assumes "length line \<noteq> 4"
  shows "read_ids_line delimiter timestamptype line ids =
           (case py_split delimiter (rstrip line) of
              Inl err \<Rightarrow> Inl err
            | Inr s \<Rightarrow>
                if s = [] then Inl IndexError
                else case call_timestamptype timestamptype (last s) of
                       Inl err \<Rightarrow> Inl err
                     | Inr x \<Rightarrow> Inr (ids_add x ids))"
  using assms
  by (auto simp: read_ids_line_def last_conv_nth split: sum.splits)

text \<open>
  Claim C4 has \<^verbatim>\<open>read_ids\<close> collect the second-to-last token of a line exactly when the
  line has four tokens and that token is not an operator. The code tests the number of
  characters of the line instead. With \<^verbatim>\<open>int\<close> as timestamp type, the line \<^verbatim>\<open>1 2 3 4\<close>
  (four tokens, eight characters with its newline) yields the candidate 4 alone, and
  the line \<^verbatim>\<open>7 8\<close> (two tokens, four characters with its newline) yields 8 and 7.
\<close>

theorem read_ids_second_candidate_by_line_length:
  "collect_ids None (Some int_type) [''1 2 3 4'' @ [CHR 0x0A]] [] = Inr [PInt 4] \<and>
   collect_ids None (Some int_type) [''7 8'' @ [CHR 0x0A]] [] = Inr [PInt 8, PInt 7]"
  by code_simp

section \<open>Conversion failures\<close>

lemma conversion_failure_aborts:
  assumes "interaction_record c d nt tt line = Inl err"
  shows "interactions_loop c d nt tt keys (pre @ line # rest) G =
           (case interactions_loop c d nt tt keys pre G of
              (G', Some err') \<Rightarrow> (G', Some err')
            | (G', None) \<Rightarrow> (G', Some err))"
  using assms
  by (simp add: interactions_loop_append interaction_line_def split: prod.splits option.splits)

lemma convert_timestamp_error:
  "convert_timestamp nodetype timestamptype s = Inl err \<Longrightarrow>
     err = TypeError_timestamp (PStr s) (map_option conv_name nodetype)"
  by (auto simp: convert_timestamp_def split: option.splits)

text \<open>
  Claim C6 has the error of a failed timestamp conversion name the timestamp type. Both
  parsers stop at the first line whose timestamp does not convert, and the
  \<^verbatim>\<open>TypeError\<close> they raise carries the token and the node type: with \<^verbatim>\<open>str\<close> for nodes
  and \<^verbatim>\<open>int\<close> for timestamps the token \<^verbatim>\<open>x\<close> is reported as not converting to \<^verbatim>\<open>str\<close>,
  and with no node type as not converting to \<^verbatim>\<open>None\<close>.
\<close>

theorem timestamp_failure_names_nodetype:
  "snd (parse_interactions [''1 2 + x'', ''1 2 + 3''] ''#'' None None
          (Some str_type) (Some int_type) None heap0) =
     Inl (TypeError_timestamp (PStr ''x'') (Some ''str'')) \<and>
   snd (parse_interactions [''1 2 + x'', ''1 2 + 3''] ''#'' None None
          None (Some int_type) None heap0) =
     Inl (TypeError_timestamp (PStr ''x'') None) \<and>
   snd (parse_snapshots [''1 2 x'', ''1 2 3''] ''#'' None None
          (Some str_type) (Some int_type) None heap0) =
     Inl (TypeError_timestamp (PStr ''x'') (Some ''str'')) \<and>
   snd (parse_snapshots [''1 2 x'', ''1 2 3''] ''#'' None None
          None (Some int_type) None heap0) =
     Inl (TypeError_timestamp (PStr ''x'') None)"
  by code_simp

section \<open>Lines of the snapshot serializer\<close>

lemma fold_constant_Cons: "fold (\<lambda>s e. c) (x # xs) e0 = c"
  by (induction xs arbitrary: x e0) simp_all

lemma fold_constant: "xs \<noteq> [] \<Longrightarrow> fold (\<lambda>s e. c) xs e0 = c"
  by (cases xs) (simp, simp only: fold_constant_Cons)

lemma entry_fields_int_pair:
  "entry_fields u v d (OList [OInt a, OInt b]) =
     Inr ((if a < b then [u, v, OList [OInt a, OInt b]] else [u, v, OInt a])
          @ map snd (filter (\<lambda>(k, x). k \<noteq> ''t'') d))"
proof (cases "a < b")
  case True
  then have "[a..b - 1] \<noteq> []" by simp
  then show ?thesis
    using True by (simp add: entry_fields_def fold_constant)
next
  case False
  then have "[a..b - 1] = []" by simp
  then show ?thesis
    using False by (simp add: entry_fields_def)
qed

lemma entry_lines_count:
  "snd (entry_lines make_str delimiter u v d ts) = None \<Longrightarrow>
     length (fst (entry_lines make_str delimiter u v d ts)) = length ts"
  by (induction ts) (auto split: sum.splits prod.splits)

text \<open>
  Claim C8 has \<^verbatim>\<open>generate_snapshots\<close> emit one line for each integer of a range entry.
  For the edge \<open>(1, 2)\<close> with the single entry \<open>[0, 3]\<close> the generator yields one line,
  whose third field is the entry itself, where the claim has three lines.
\<close>

theorem generate_snapshots_range_entry:
  "generate_snapshots make_str
     [(OInt 1, OInt 2, [(''t'', OList [OList [OInt 0, OInt 3]])])] '' '' =
     ([join '' '' [make_str (OInt 1), make_str (OInt 2), make_str (OList [OInt 0, OInt 3])]],
      None)"
  by (simp add: entry_fields_def upto.simps)

end
